theory Spec2Isabelle
  imports Main
begin

section \<open>JavaScript values used by the Node.js wrappers\<close>

text \<open>
  An \<^verbatim>\<open>Error\<close> object: its message and, for \<^verbatim>\<open>new Error(msg, { cause: err })\<close>,
  the error it wraps.
\<close>

datatype js_error = JsError (message: string) (cause: "js_error option")

text \<open>A call either throws or returns normally.\<close>

datatype 'a completion = Throw js_error | Return 'a

text \<open>
  Truthiness of a value that is either \<^verbatim>\<open>undefined\<close>/\<^verbatim>\<open>null\<close> or a string
  (an entry of \<^verbatim>\<open>process.env\<close>, the \<^verbatim>\<open>signal\<close> of an exit event): only a non-empty
  string is truthy.
\<close>

fun truthy :: "string option \<Rightarrow> bool" where
  "truthy None = False"
| "truthy (Some s) = (s \<noteq> [])"

text \<open>
  Decimal rendering of an integer, as a template literal renders the number
  \<^verbatim>\<open>code\<close>.
\<close>

definition digit_char :: "nat \<Rightarrow> char" where
  "digit_char d = ''0123456789'' ! (d mod 10)"

function string_of_nat :: "nat \<Rightarrow> string" where
  "string_of_nat n =
     (if n < 10 then [digit_char n] else string_of_nat (n div 10) @ [digit_char (n mod 10)])"
  by pat_completeness auto
termination
  by (relation "measure (\<lambda>n. n)") auto

declare string_of_nat.simps [simp del]

definition string_of_int :: "int \<Rightarrow> string" where
  "string_of_int i = (if i < 0 then CHR ''-'' # string_of_nat (nat (- i)) else string_of_nat (nat i))"

text \<open>\<^verbatim>\<open>${code}\<close> where \<^verbatim>\<open>code\<close> is a number or \<^verbatim>\<open>null\<close>.\<close>

fun string_of_code :: "int option \<Rightarrow> string" where
  "string_of_code None = ''null''"
| "string_of_code (Some c) = string_of_int c"

section \<open>The host seen by the spawn wrapper\<close>

text \<open>What a path of the file system leads to, when it leads to anything.\<close>

datatype entry = File | Directory

text \<open>
  What the wrapper reads from its environment: \<^verbatim>\<open>process.platform\<close>,
  \<^verbatim>\<open>process.arch\<close>, \<^verbatim>\<open>process.env.REAUTHFI_BINARY\<close> (absent when the variable is not
  set), the module's \<^verbatim>\<open>__dirname\<close>, the file system (what each path leads to), and
  the library function \<^verbatim>\<open>path.join\<close>, which belongs to the runtime and is taken as it
  is.
\<close>

record host =
  platform :: string
  arch :: string
  env_REAUTHFI_BINARY :: "string option"
  dirname :: string
  entries :: "string \<Rightarrow> entry option"
  path_join :: "string \<Rightarrow> string \<Rightarrow> string"

text \<open>
  \<^verbatim>\<open>fs.existsSync(path)\<close>: true when the path exists, whatever it leads to, a file or a
  directory.
\<close>

definition existsSync :: "host \<Rightarrow> string \<Rightarrow> bool" where
  "existsSync h p = (entries h p \<noteq> None)"

definition supported :: "host \<Rightarrow> bool" where
  "supported h = (platform h = ''darwin'' \<and> arch h = ''arm64'')"

subsection \<open>\<^verbatim>\<open>assertSupportedPlatform\<close>\<close>

definition assertSupportedPlatform :: "host \<Rightarrow> unit completion" where
  "assertSupportedPlatform h =
     (if platform h \<noteq> ''darwin'' \<or> arch h \<noteq> ''arm64''
      then Throw (JsError (''Unsupported platform: '' @ platform h @ '' '' @ arch h
                            @ '' (macOS arm64 required)'') None)
      else Return ())"

subsection \<open>\<^verbatim>\<open>resolveBinary\<close>\<close>

definition bundled :: "host \<Rightarrow> string" where
  "bundled h = path_join h (dirname h) ''reauthfi''"

definition resolveBinary :: "host \<Rightarrow> string" where
  "resolveBinary h =
     (if truthy (env_REAUTHFI_BINARY h) \<and> existsSync h (the (env_REAUTHFI_BINARY h))
      then the (env_REAUTHFI_BINARY h)
      else if existsSync h (bundled h) then bundled h
      else ''reauthfi'')"

section \<open>The spawn wrapper: \<^verbatim>\<open>run\<close>\<close>

text \<open>
  What a module does to the outside: it starts a child process (command and arguments,
  always with \<^verbatim>\<open>stdio: 'inherit'\<close>) or loads another module.
\<close>

datatype effect = Spawn string "string list" | Require string

text \<open>
  The two events \<^verbatim>\<open>run\<close> listens to: \<^verbatim>\<open>'error'\<close> with the error, and \<^verbatim>\<open>'exit'\<close> with
  the exit code (a number or \<^verbatim>\<open>null\<close>) and the signal (a string or \<^verbatim>\<open>null\<close>).
\<close>

datatype child_event = ErrorEvent js_error | ExitEvent "int option" "string option"

text \<open>
  What \<^verbatim>\<open>spawn\<close> does when called: it throws, or it returns a child whose events
  arrive later, in order.
\<close>

datatype spawned = SpawnThrows js_error | Child "child_event list"

text \<open>
  A promise of no value. \<^verbatim>\<open>resolve()\<close> and \<^verbatim>\<open>reject(e)\<close> settle a pending promise;
  on a settled one they do nothing.
\<close>

datatype promise = Pending | Fulfilled | Rejected js_error

fun promise_resolve :: "promise \<Rightarrow> promise" where
  "promise_resolve Pending = Fulfilled"
| "promise_resolve p = p"

fun promise_reject :: "js_error \<Rightarrow> promise \<Rightarrow> promise" where
  "promise_reject e Pending = Rejected e"
| "promise_reject e p = p"

text \<open>The \<^verbatim>\<open>'error'\<close> and \<^verbatim>\<open>'exit'\<close> handlers that \<^verbatim>\<open>run\<close> installs.\<close>

definition on_error :: "js_error \<Rightarrow> promise \<Rightarrow> promise" where
  "on_error err p = promise_reject err p"

definition on_exit :: "int option \<Rightarrow> string option \<Rightarrow> promise \<Rightarrow> promise" where
  "on_exit code signal p =
     (if code = Some 0 then promise_resolve p
      else if truthy signal
      then promise_reject (JsError (''reauthfi terminated by signal: '' @ the signal) None) p
      else promise_reject (JsError (''reauthfi exited with code '' @ string_of_code code) None) p)"

fun deliver :: "child_event \<Rightarrow> promise \<Rightarrow> promise" where
  "deliver (ErrorEvent err) p = on_error err p"
| "deliver (ExitEvent code signal) p = on_exit code signal p"

text \<open>
  The promise executor: it calls \<^verbatim>\<open>spawn\<close>; an exception thrown inside an executor
  rejects the promise; otherwise the handlers see the child's events one by one.
\<close>

definition executor :: "spawned \<Rightarrow> promise" where
  "executor sp = (case sp of SpawnThrows err \<Rightarrow> Rejected err | Child evs \<Rightarrow> fold deliver evs Pending)"

text \<open>
  \<^verbatim>\<open>run(args = [])\<close>: the platform assertion comes first and throws out of \<^verbatim>\<open>run\<close>
  itself; only then is the promise built and the child spawned. The result is the
  completion of the call together with the effects it had.
\<close>

definition run :: "host \<Rightarrow> string list option \<Rightarrow> spawned \<Rightarrow> promise completion \<times> effect list" where
  "run h args sp =
     (case assertSupportedPlatform h of
        Throw e \<Rightarrow> (Throw e, [])
      | Return _ \<Rightarrow>
          (Return (executor sp),
           [Spawn (resolveBinary h) (case args of None \<Rightarrow> [] | Some a \<Rightarrow> a)]))"

section \<open>The command-line entry point \<^verbatim>\<open>bin.js\<close>\<close>

text \<open>An argument of \<^verbatim>\<open>console.error\<close>: a string, or an error object.\<close>

datatype console_arg = Text string | ErrorObject js_error

text \<open>
  How the Node.js process of \<^verbatim>\<open>bin.js\<close> ends: \<^verbatim>\<open>process.exit(n)\<close> or the event loop
  running empty (exit code 0); an exception nobody caught; or not at all, while the
  promise is pending.
\<close>

datatype ending = Exit int | Uncaught js_error | NoExit

record bin_outcome =
  effects :: "effect list"
  console_error :: "console_arg list"
  catch_ran :: bool
  ended :: ending

text \<open>
  \<^verbatim>\<open>run(args).catch((err) => { console.error(err.message || err); process.exit(1) })\<close>
  with \<^verbatim>\<open>args = process.argv.slice(2)\<close>.
\<close>

definition bin_main :: "host \<Rightarrow> string list \<Rightarrow> spawned \<Rightarrow> bin_outcome" where
  "bin_main h argv sp =
     (case run h (Some (drop 2 argv)) sp of
        (Throw e, effs) \<Rightarrow>
          \<lparr>effects = effs, console_error = [], catch_ran = False, ended = Uncaught e\<rparr>
      | (Return Pending, effs) \<Rightarrow>
          \<lparr>effects = effs, console_error = [], catch_ran = False, ended = NoExit\<rparr>
      | (Return Fulfilled, effs) \<Rightarrow>
          \<lparr>effects = effs, console_error = [], catch_ran = False, ended = Exit 0\<rparr>
      | (Return (Rejected err), effs) \<Rightarrow>
          \<lparr>effects = effs,
           console_error = [if message err \<noteq> [] then Text (message err) else ErrorObject err],
           catch_ran = True, ended = Exit 1\<rparr>)"

text \<open>
  The exit code an observer of the process sees. Node.js ends a process that dies of an
  uncaught exception with exit code 1.
\<close>

fun observed_exit_code :: "ending \<Rightarrow> int option" where
  "observed_exit_code (Exit n) = Some n"
| "observed_exit_code (Uncaught e) = Some 1"
| "observed_exit_code NoExit = None"

section \<open>The native-binding entry module\<close>

text \<open>
  A property value of the addon's exports object, and the object itself as a map from
  property names; reading a property that is absent gives \<^verbatim>\<open>undefined\<close>.
\<close>

datatype js_value = Undefined | Function string | Data string

type_synonym js_object = "string \<rightharpoonup> js_value"

definition get_prop :: "js_object \<Rightarrow> string \<Rightarrow> js_value" where
  "get_prop obj k = (case obj k of None \<Rightarrow> Undefined | Some v \<Rightarrow> v)"

text \<open>What \<^verbatim>\<open>require('./reauthfi.darwin-arm64.node')\<close> does: it throws, or gives the exports.\<close>

datatype required = RequireThrows js_error | Loaded js_object

text \<open>
  Loading the module: the platform test, then the guarded \<^verbatim>\<open>require\<close>, then
  \<^verbatim>\<open>module.exports = nativeBinding; module.exports.run = nativeBinding.run\<close>. The result
  is \<^verbatim>\<open>module.exports\<close>, or the exception that aborts the load.
\<close>

definition load_native :: "host \<Rightarrow> required \<Rightarrow> js_object completion \<times> effect list" where
  "load_native h req =
     (if platform h \<noteq> ''darwin'' \<or> arch h \<noteq> ''arm64''
      then (Throw (JsError
              ''reauthfi npm package supports only macOS arm64 (Apple Silicon) environments.''
              None), [])
      else case req of
             RequireThrows err \<Rightarrow>
               (Throw (JsError
                  ''Failed to load native binding. Reinstall the package or run `npm run build`.''
                  (Some err)),
                [Require ''./reauthfi.darwin-arm64.node''])
           | Loaded nativeBinding \<Rightarrow>
               (Return (nativeBinding(''run'' \<mapsto> get_prop nativeBinding ''run'')),
                [Require ''./reauthfi.darwin-arm64.node'']))"

section \<open>The detection core\<close>

text \<open>
  The wrappers above start or load the detection core, a separate program whose sources
  are not among the wrapper's files. Its data model and its components are written
  down here as the specification describes them; each definition says which part of
  the specification it follows.
\<close>

text \<open>
  Modelled from the spec: the core's URI type is missing from the sources; data model,
  "url: URI". A URI is kept as the string it is written as.
\<close>

type_synonym uri = string

text \<open>
  Modelled from the spec: the core's \<^verbatim>\<open>Options\<close> type is missing from the sources; data
  model, "Options (immutable per run): verbose, no_open, gateway, timeout (seconds)".
\<close>

record Options =
  verbose :: bool
  no_open :: bool
  gateway :: bool
  timeout :: int

text \<open>
  Modelled from the spec: the core's command-line parser is missing from the sources;
  external interfaces, "--timeout <seconds>: positive integer seconds, default 10". The
  three switches are given as they were parsed, the timeout flag as absent or with its
  value.
\<close>

definition options_of_flags :: "bool \<Rightarrow> bool \<Rightarrow> bool \<Rightarrow> int option \<Rightarrow> Options" where
  "options_of_flags v n g t =
     \<lparr>verbose = v, no_open = n, gateway = g, timeout = (case t of None \<Rightarrow> 10 | Some s \<Rightarrow> s)\<rparr>"

text \<open>
  Modelled from the spec: the core's \<^verbatim>\<open>ProbeOutcome\<close> type is missing from the sources;
  data model, "one of Matched, Redirected(to), UnexpectedResponse(status, body_excerpt),
  TimedOut, TransportError(reason)".
\<close>

datatype ProbeOutcome =
  Matched | Redirected uri | UnexpectedResponse nat string | TimedOut | TransportError string

text \<open>
  Modelled from the spec: the core's \<^verbatim>\<open>GatewayProbeOutcome\<close> type is missing from the
  sources; data model, "gateway_ip, outcome: same shape as ProbeOutcome, portal_url:
  optional URI".
\<close>

record GatewayProbeOutcome =
  gateway_ip :: string
  outcome :: ProbeOutcome
  portal_url :: "uri option"

text \<open>
  Modelled from the spec: the result type of \<^verbatim>\<open>NetworkReadinessChecker.check\<close> is missing
  from the sources; component design, "check() -> Ready | NetworkNotReady".
\<close>

datatype Readiness = Ready | NotReady

text \<open>
  Modelled from the spec: the core's \<^verbatim>\<open>ExecutionStatus\<close> type is missing from the
  sources; data model, "Completed, PortalDetected(url), NetworkNotReady, Inconclusive".
\<close>

datatype ExecutionStatus = Completed | PortalDetected uri | NetworkNotReady | Inconclusive

text \<open>
  Modelled from the spec: the core's error type is missing from the sources; error
  handling design, "only UnsupportedPlatform and ConfigurationError abort before
  producing a status".
\<close>

datatype core_error = UnsupportedPlatform | ConfigurationError


text \<open>
  Modelled from the spec: the engine's choice of the candidate portal URL is missing from
  the sources; component design 4.2, "first Redirected result by completion order wins
  if multiple differ". The outcomes are listed in completion order.
\<close>

fun first_redirect :: "ProbeOutcome list \<Rightarrow> uri option" where
  "first_redirect [] = None"
| "first_redirect (Redirected u # os) = Some u"
| "first_redirect (x # os) = first_redirect os"

text \<open>
  Modelled from the spec: the gateway detector's portal signal is missing from the
  sources; data model, "GatewayProbeOutcome: portal_url: optional URI". The signal is
  the portal URL of the gateway outcome, when there is an outcome and it has one.
\<close>

definition gateway_signal :: "GatewayProbeOutcome option \<Rightarrow> uri option" where
  "gateway_signal gatewayOutcome = (case gatewayOutcome of None \<Rightarrow> None | Some g \<Rightarrow> portal_url g)"

text \<open>
  Modelled from the spec: \<^verbatim>\<open>DetectionResolver.resolve\<close> is missing from the sources;
  component design 4.4, "NetworkNotReady short-circuits everything else. Otherwise: any
  confirmed portal signal (from either source) gives PortalDetected(url), preferring the
  gateway-detector's URL. No portal signal and at least one Matched gives Completed. No
  portal signal and no Matched gives Inconclusive".
\<close>

definition resolve :: "ProbeOutcome list \<Rightarrow> GatewayProbeOutcome option \<Rightarrow> Readiness \<Rightarrow> ExecutionStatus" where
  "resolve engineOutcomes gatewayOutcome readiness =
     (case readiness of
        NotReady \<Rightarrow> NetworkNotReady
      | Ready \<Rightarrow>
          (case gateway_signal gatewayOutcome of
             Some url \<Rightarrow> PortalDetected url
           | None \<Rightarrow>
               (case first_redirect engineOutcomes of
                  Some url \<Rightarrow> PortalDetected url
                | None \<Rightarrow> if Matched \<in> set engineOutcomes then Completed else Inconclusive)))"

text \<open>
  Modelled from the spec: the core's collaborators are missing from the sources;
  component design 4.1 to 4.3 and external interfaces. The readiness check, the probe
  engine (its outcomes for the registry's endpoints under a timeout), the gateway
  detector and the browser opener (true when the browser opened) are given from outside,
  as the design notes ask.
\<close>

record collaborators =
  check :: Readiness
  probe :: "int \<Rightarrow> ProbeOutcome list"
  probeGateway :: "int \<Rightarrow> GatewayProbeOutcome"
  openDefaultBrowser :: "uri \<Rightarrow> bool"

text \<open>
  Modelled from the spec: the core's calls to its collaborators are missing from the
  sources; testable properties, "no probe is ever issued (verify via call-count
  assertion on the probing collaborator)". The calls are recorded in order: a run of the
  probe engine, a gateway probe, a call of the browser opener, and the report of a
  failed launch.
\<close>

datatype core_effect = EngineProbe | GatewayProbe | BrowserOpen uri | LaunchErrorReported

text \<open>
  Modelled from the spec: \<^verbatim>\<open>PortalLauncher.launch\<close> is missing from the sources;
  component design 4.5, "No-op when Options.no_open is set. Otherwise delegates to the
  external open-URL capability and surfaces a recoverable error if that capability
  fails".
\<close>

definition launch :: "collaborators \<Rightarrow> uri \<Rightarrow> Options \<Rightarrow> core_effect list" where
  "launch w url opts =
     (if no_open opts then []
      else if openDefaultBrowser w url then [BrowserOpen url]
      else [BrowserOpen url, LaunchErrorReported])"

text \<open>
  Modelled from the spec: the engine's ambiguity test is missing from the sources;
  component design 4.2, "If all endpoints report TimedOut/TransportError, the engine
  reports ambiguity".
\<close>

fun failed :: "ProbeOutcome \<Rightarrow> bool" where
  "failed TimedOut = True"
| "failed (TransportError r) = True"
| "failed x = False"

text \<open>
  Modelled from the spec: as above, the ambiguity of a whole list of outcomes (missing
  from the sources): every endpoint reports a timeout or a transport error.
\<close>

definition ambiguous :: "ProbeOutcome list \<Rightarrow> bool" where
  "ambiguous outs = list_all failed outs"

text \<open>
  Modelled from the spec: the order in which the core consults the gateway detector and
  the probe engine is missing from the sources; component design 4.3, "When
  Options.gateway is set, this detector runs before PortalProbeEngine and, on a clear
  portal signal, short-circuits further probing; otherwise it runs as a secondary
  corroboration signal consulted only when the engine's outcome is ambiguous". The
  result is the engine's outcomes, the gateway outcome if there is one, and the calls
  made.
\<close>

definition gather ::
  "collaborators \<Rightarrow> Options \<Rightarrow> ProbeOutcome list \<times> GatewayProbeOutcome option \<times> core_effect list" where
  "gather w opts =
     (if gateway opts
      then (let g = probeGateway w (timeout opts)
            in if portal_url g \<noteq> None then ([], Some g, [GatewayProbe])
               else (probe w (timeout opts), Some g, [GatewayProbe, EngineProbe]))
      else (let outs = probe w (timeout opts)
            in if ambiguous outs
               then (outs, Some (probeGateway w (timeout opts)), [EngineProbe, GatewayProbe])
               else (outs, None, [EngineProbe])))"

text \<open>
  Modelled from the spec: the core's entry function is missing from the sources; system
  overview ("ReadinessChecker gates entry, then the probes, then DetectionResolver, then
  PortalLauncher unless suppressed") and error handling design ("ConfigurationError:
  invalid Options, e.g. non-positive timeout, fatal, reported before any network
  activity"). The result is the error or the status, with the collaborator calls made.
\<close>

definition detect :: "collaborators \<Rightarrow> Options \<Rightarrow> (core_error + ExecutionStatus) \<times> core_effect list" where
  "detect w opts =
     (if timeout opts \<le> 0 then (Inl ConfigurationError, [])
      else case check w of
             NotReady \<Rightarrow> (Inr (resolve [] None NotReady), [])
           | Ready \<Rightarrow>
               (case gather w opts of
                  (outs, gw, calls) \<Rightarrow>
                    (case resolve outs gw Ready of
                       PortalDetected url \<Rightarrow> (Inr (PortalDetected url), calls @ launch w url opts)
                     | status \<Rightarrow> (Inr status, calls))))"

section \<open>Example hosts and networks\<close>

text \<open>Concrete inputs on which the theorems below are evaluated.\<close>

definition linux_x64 :: host where
  "linux_x64 =
     \<lparr>platform = ''linux'', arch = ''x64'', env_REAUTHFI_BINARY = None, dirname = ''/pkg'',
      entries = (\<lambda>p. if p = ''/pkg/reauthfi'' then Some File else None),
      path_join = (\<lambda>d f. d @ ''/'' @ f)\<rparr>"

definition mac_arm64 :: host where
  "mac_arm64 =
     \<lparr>platform = ''darwin'', arch = ''arm64'', env_REAUTHFI_BINARY = Some ''/opt/reauthfi'',
      dirname = ''/pkg'',
      entries = (\<lambda>p. if p = ''/pkg/reauthfi'' then Some File else None),
      path_join = (\<lambda>d f. d @ ''/'' @ f)\<rparr>"

definition mac_with_env :: host where
  "mac_with_env =
     \<lparr>platform = ''darwin'', arch = ''arm64'', env_REAUTHFI_BINARY = Some ''/opt/reauthfi'',
      dirname = ''/pkg'',
      entries = (\<lambda>p. if p = ''/opt/reauthfi'' \<or> p = ''/pkg/reauthfi'' then Some File else None),
      path_join = (\<lambda>d f. d @ ''/'' @ f)\<rparr>"

definition mac_bare :: host where
  "mac_bare =
     \<lparr>platform = ''darwin'', arch = ''arm64'', env_REAUTHFI_BINARY = Some [],
      dirname = ''/pkg'', entries = (\<lambda>p. None), path_join = (\<lambda>d f. d @ ''/'' @ f)\<rparr>"

definition mac_global_install :: host where
  "mac_global_install =
     \<lparr>platform = ''darwin'', arch = ''arm64'', env_REAUTHFI_BINARY = None,
      dirname = ''/usr/local/lib/node_modules/reauthfi/bindings/node'',
      entries = (\<lambda>p. if p = ''/usr/local/lib/node_modules/reauthfi/bindings/node/reauthfi''
                      then Some File
                      else if p = ''/pkg/reauthfi'' then Some File else None),
      path_join = (\<lambda>d f. d @ ''/'' @ f)\<rparr>"

definition env_names_directory :: host where
  "env_names_directory =
     \<lparr>platform = ''darwin'', arch = ''arm64'', env_REAUTHFI_BINARY = Some ''/opt/tools'',
      dirname = ''/pkg'',
      entries = (\<lambda>p. if p = ''/opt/tools'' then Some Directory
                      else if p = ''/pkg/reauthfi'' then Some File else None),
      path_join = (\<lambda>d f. d @ ''/'' @ f)\<rparr>"

definition binding_with_run :: js_object where
  "binding_with_run = [''run'' \<mapsto> Function ''run'']"

definition binding_renamed :: js_object where
  "binding_renamed = [''version'' \<mapsto> Data ''0.1.2'', ''run'' \<mapsto> Function ''detect'']"

definition binding_without_run :: js_object where
  "binding_without_run = [''version'' \<mapsto> Data ''0.1.2'']"


definition no_gateway_page :: GatewayProbeOutcome where
  "no_gateway_page = \<lparr>gateway_ip = ''192.168.0.1'', outcome = TimedOut, portal_url = None\<rparr>"

definition hotel_wifi :: collaborators where
  "hotel_wifi =
     \<lparr>check = Ready,
      probe = (\<lambda>t. [TimedOut, Redirected ''http://portal.example/login'', Matched]),
      probeGateway = (\<lambda>t. no_gateway_page),
      openDefaultBrowser = (\<lambda>u. True)\<rparr>"

definition cable_unplugged :: collaborators where
  "cable_unplugged =
     \<lparr>check = NotReady,
      probe = (\<lambda>t. [Redirected ''http://portal.example/login'']),
      probeGateway = (\<lambda>t. no_gateway_page),
      openDefaultBrowser = (\<lambda>u. True)\<rparr>"

definition default_run :: Options where
  "default_run = options_of_flags False False False None"

definition print_only :: Options where
  "print_only = options_of_flags False True False None"

section \<open>The promise settles once\<close>







section \<open>\<^verbatim>\<open>run\<close> on supported and unsupported hosts\<close>

lemma run_supported:
  "supported h \<Longrightarrow>
   run h args sp =
     (Return (executor sp), [Spawn (resolveBinary h) (case args of None \<Rightarrow> [] | Some a \<Rightarrow> a)])"
  by (simp add: run_def assertSupportedPlatform_def supported_def)

lemma run_unsupported:
  "\<not> supported h \<Longrightarrow>
   run h args sp =
     (Throw (JsError (''Unsupported platform: '' @ platform h @ '' '' @ arch h
                       @ '' (macOS arm64 required)'') None), [])"
  by (auto simp add: run_def assertSupportedPlatform_def supported_def)

section \<open>Properties of the wrappers\<close>

text \<open>
  Claim C1. On a host that is not darwin/arm64 the entry point fails with the
  unsupported-platform error before anything is probed: \<^verbatim>\<open>run\<close> throws that error out
  of the platform assertion and has no effect at all, so no child process is spawned
  (and with it no network activity); the command-line entry point has no effect either
  and its process ends with a failure code; and the native-binding module throws while
  it loads, before it requires the binding.
\<close>

theorem unsupported_platform_no_probing:
  assumes "\<not> supported h"
  shows "run h args sp =
           (Throw (JsError (''Unsupported platform: '' @ platform h @ '' '' @ arch h
                             @ '' (macOS arm64 required)'') None), [])
         \<and> effects (bin_main h argv sp) = []
         \<and> observed_exit_code (ended (bin_main h argv sp)) = Some 1
         \<and> load_native h req =
             (Throw (JsError
                ''reauthfi npm package supports only macOS arm64 (Apple Silicon) environments.''
                None), [])"
  using assms by (auto simp: run_unsupported bin_main_def load_native_def supported_def)

theorem unsupported_platform_no_probing_witness:
  "\<not> supported linux_x64
   \<and> run linux_x64 (Some [''--gateway'']) (Child [ExitEvent (Some 0) None]) =
       (Throw (JsError ''Unsupported platform: linux x64 (macOS arm64 required)'' None), [])
   \<and> effects (bin_main linux_x64 [''node'', ''bin.js'', ''--gateway'']
                 (Child [ExitEvent (Some 0) None])) = []
   \<and> fst (load_native linux_x64 (Loaded [''run'' \<mapsto> Function ''run''])) =
       Throw (JsError
         ''reauthfi npm package supports only macOS arm64 (Apple Silicon) environments.'' None)"
  using unsupported_platform_no_probing
          [of linux_x64 "Some [''--gateway'']" "Child [ExitEvent (Some 0) None]"
              "[''node'', ''bin.js'', ''--gateway'']" "Loaded [''run'' \<mapsto> Function ''run'']"]
  by (simp add: linux_x64_def supported_def)



text \<open>
  Claim C8. When the platform check fails, the spawn-based \<^verbatim>\<open>run\<close> throws synchronously
  instead of returning a rejected promise: \<^verbatim>\<open>run\<close> returns a promise exactly on
  supported hosts. So in \<^verbatim>\<open>bin.js\<close> the \<^verbatim>\<open>.catch\<close> handler never sees the
  unsupported-platform error: the handler does not run, nothing is passed to
  \<^verbatim>\<open>console.error\<close>, and the process dies of the uncaught exception.
\<close>

theorem unsupported_platform_throws_synchronously:
  "((\<exists>p. fst (run h args sp) = Return p) = supported h)
   \<and> (\<not> supported h \<longrightarrow>
        fst (run h args sp) =
          Throw (JsError (''Unsupported platform: '' @ platform h @ '' '' @ arch h
                           @ '' (macOS arm64 required)'') None)
        \<and> catch_ran (bin_main h argv sp) = False
        \<and> console_error (bin_main h argv sp) = []
        \<and> ended (bin_main h argv sp) =
            Uncaught (JsError (''Unsupported platform: '' @ platform h @ '' '' @ arch h
                                @ '' (macOS arm64 required)'') None))"
proof (cases "supported h")
  case True
  then show ?thesis by (simp add: run_supported)
next
  case False
  then show ?thesis by (simp add: run_unsupported bin_main_def)
qed

theorem unsupported_platform_throws_synchronously_witness:
  "\<not> supported linux_x64
   \<and> fst (run linux_x64 (Some []) (Child [ExitEvent (Some 0) None])) =
       Throw (JsError ''Unsupported platform: linux x64 (macOS arm64 required)'' None)
   \<and> catch_ran (bin_main linux_x64 [''node'', ''bin.js''] (Child [ExitEvent (Some 0) None])) = False
   \<and> console_error (bin_main linux_x64 [''node'', ''bin.js''] (Child [ExitEvent (Some 0) None])) = []
   \<and> ended (bin_main linux_x64 [''node'', ''bin.js''] (Child [ExitEvent (Some 0) None])) =
       Uncaught (JsError ''Unsupported platform: linux x64 (macOS arm64 required)'' None)"
  using unsupported_platform_throws_synchronously
          [of linux_x64 "Some []" "Child [ExitEvent (Some 0) None]" "[''node'', ''bin.js'']"]
  by (simp add: linux_x64_def supported_def)

text \<open>
  Claim C9, as amended. \<^verbatim>\<open>resolveBinary\<close> has a strict three-level precedence: the
  value of \<^verbatim>\<open>REAUTHFI_BINARY\<close> when the variable is set and that path exists, be it a
  file or a directory; otherwise the bundled sibling \<^verbatim>\<open>path.join(__dirname, 'reauthfi')\<close>
  when that path exists; otherwise the bare command name \<^verbatim>\<open>reauthfi\<close>, left to the PATH
  lookup; and nothing else is ever returned. The source tests the variable for
  truthiness, so an empty value is skipped; the empty path leads to nothing in any file
  system, which is the one fact assumed.
\<close>

theorem resolveBinary_precedence:
  assumes "entries h [] = None"
  shows "resolveBinary h =
           (case env_REAUTHFI_BINARY h of
              Some p \<Rightarrow>
                if entries h p \<noteq> None then p
                else if entries h (path_join h (dirname h) ''reauthfi'') \<noteq> None
                     then path_join h (dirname h) ''reauthfi'' else ''reauthfi''
            | None \<Rightarrow>
                if entries h (path_join h (dirname h) ''reauthfi'') \<noteq> None
                then path_join h (dirname h) ''reauthfi'' else ''reauthfi'')
         \<and> resolveBinary h \<in> set_option (env_REAUTHFI_BINARY h)
                               \<union> {path_join h (dirname h) ''reauthfi'', ''reauthfi''}"
  using assms
  by (cases "env_REAUTHFI_BINARY h") (auto simp: resolveBinary_def bundled_def existsSync_def)

theorem resolveBinary_precedence_witness:
  "entries mac_with_env [] = None \<and> resolveBinary mac_with_env = ''/opt/reauthfi''
   \<and> entries mac_arm64 [] = None \<and> resolveBinary mac_arm64 = ''/pkg/reauthfi''
   \<and> entries mac_global_install [] = None
   \<and> resolveBinary mac_global_install
       = ''/usr/local/lib/node_modules/reauthfi/bindings/node/reauthfi''
   \<and> entries mac_bare [] = None \<and> resolveBinary mac_bare = ''reauthfi''
   \<and> entries env_names_directory [] = None \<and> resolveBinary env_names_directory = ''/opt/tools''"
  using resolveBinary_precedence [of mac_with_env] resolveBinary_precedence [of mac_arm64]
        resolveBinary_precedence [of mac_global_install] resolveBinary_precedence [of mac_bare]
        resolveBinary_precedence [of env_names_directory]
  by (simp add: mac_with_env_def mac_arm64_def mac_global_install_def mac_bare_def
        env_names_directory_def)

text \<open>
  The wording "names an existing file" does not hold of the code: where the variable
  names a directory and the bundled binary is there as a file, \<^verbatim>\<open>resolveBinary\<close> returns
  the directory, not the bundled path.
\<close>

theorem resolveBinary_directory_counterexample:
  "env_REAUTHFI_BINARY env_names_directory = Some ''/opt/tools''
   \<and> entries env_names_directory ''/opt/tools'' = Some Directory
   \<and> entries env_names_directory ''/opt/tools'' \<noteq> Some File
   \<and> path_join env_names_directory (dirname env_names_directory) ''reauthfi'' = ''/pkg/reauthfi''
   \<and> entries env_names_directory ''/pkg/reauthfi'' = Some File
   \<and> resolveBinary env_names_directory = ''/opt/tools''
   \<and> resolveBinary env_names_directory \<noteq> ''/pkg/reauthfi''"
  by (simp add: env_names_directory_def resolveBinary_def bundled_def existsSync_def)

text \<open>
  Claim C10, as amended. The native-binding entry module either throws while it loads
  or exports what the binding it loaded exports, with the property \<^verbatim>\<open>run\<close> set to the
  binding's own \<^verbatim>\<open>run\<close>: a function when the binding has one, \<^verbatim>\<open>undefined\<close> when it has
  none. On a host that is not darwin/arm64 it throws, before requiring anything, an
  error that says the package supports only macOS arm64; when requiring the \<^verbatim>\<open>.node\<close>
  file fails it throws the "Failed to load native binding" error whose cause is the
  original failure. It has exports only when the host is darwin/arm64 and the binding
  was loaded, so nothing is ever exported without a loaded binding.
\<close>

theorem native_module_exports:
  "(platform h \<noteq> ''darwin'' \<or> arch h \<noteq> ''arm64'' \<longrightarrow>
      load_native h req =
        (Throw (JsError
           ''reauthfi npm package supports only macOS arm64 (Apple Silicon) environments.''
           None), []))
   \<and> (platform h = ''darwin'' \<and> arch h = ''arm64'' \<longrightarrow>
        load_native h (RequireThrows err) =
          (Throw (JsError
             ''Failed to load native binding. Reinstall the package or run `npm run build`.''
             (Some err)),
           [Require ''./reauthfi.darwin-arm64.node'']))
   \<and> (platform h = ''darwin'' \<and> arch h = ''arm64'' \<longrightarrow>
        load_native h (Loaded nativeBinding) =
          (Return (nativeBinding(''run'' \<mapsto>
                     (case nativeBinding ''run'' of None \<Rightarrow> Undefined | Some f \<Rightarrow> f))),
           [Require ''./reauthfi.darwin-arm64.node'']))
   \<and> ((\<exists>exports. fst (load_native h req) = Return exports)
        = (platform h = ''darwin'' \<and> arch h = ''arm64'' \<and> (\<exists>b. req = Loaded b)))"
proof (cases "platform h = ''darwin'' \<and> arch h = ''arm64''")
  case False
  then show ?thesis by (auto simp: load_native_def)
next
  case True
  then show ?thesis by (cases req) (auto simp: load_native_def get_prop_def)
qed

theorem native_module_exports_witness:
  "platform linux_x64 \<noteq> ''darwin''
   \<and> platform mac_arm64 = ''darwin'' \<and> arch mac_arm64 = ''arm64''
   \<and> load_native linux_x64 (Loaded binding_with_run) =
       (Throw (JsError
         ''reauthfi npm package supports only macOS arm64 (Apple Silicon) environments.'' None),
        [])
   \<and> fst (load_native mac_arm64 (RequireThrows (JsError ''dlopen failed'' None))) =
       Throw (JsError
         ''Failed to load native binding. Reinstall the package or run `npm run build`.''
         (Some (JsError ''dlopen failed'' None)))
   \<and> (case fst (load_native mac_arm64 (Loaded binding_with_run)) of
         Return exports \<Rightarrow> exports ''run'' = Some (Function ''run'')
       | Throw e \<Rightarrow> False)
   \<and> (case fst (load_native mac_arm64 (Loaded binding_renamed)) of
         Return exports \<Rightarrow>
           exports ''run'' = Some (Function ''detect'')
           \<and> exports ''version'' = Some (Data ''0.1.2'')
       | Throw e \<Rightarrow> False)
   \<and> (case fst (load_native mac_arm64 (Loaded binding_without_run)) of
         Return exports \<Rightarrow>
           exports ''run'' = Some Undefined \<and> exports ''version'' = Some (Data ''0.1.2'')
       | Throw e \<Rightarrow> False)"
  using native_module_exports [of linux_x64 "Loaded binding_with_run"
          "JsError ''dlopen failed'' None" binding_with_run]
        native_module_exports [of mac_arm64 "RequireThrows (JsError ''dlopen failed'' None)"
          "JsError ''dlopen failed'' None" binding_with_run]
        native_module_exports [of mac_arm64 "Loaded binding_renamed"
          "JsError ''dlopen failed'' None" binding_renamed]
        native_module_exports [of mac_arm64 "Loaded binding_without_run"
          "JsError ''dlopen failed'' None" binding_without_run]
  by (simp add: linux_x64_def mac_arm64_def binding_with_run_def binding_renamed_def
        binding_without_run_def)

text \<open>
  The wording "either throws or exports a run function" does not hold of the code: a
  binding without \<^verbatim>\<open>run\<close> loads, and the module then exports \<^verbatim>\<open>run\<close> as \<^verbatim>\<open>undefined\<close>.
  Nor are the words "Unsupported platform" in the message thrown on an unsupported
  host.
\<close>

theorem native_module_without_run_counterexample:
  "platform mac_arm64 = ''darwin'' \<and> arch mac_arm64 = ''arm64''
   \<and> binding_without_run ''run'' = None
   \<and> (case load_native mac_arm64 (Loaded binding_without_run) of
         (Return exports, effs) \<Rightarrow> exports ''run'' = Some Undefined
       | (Throw e, effs) \<Rightarrow> False)
   \<and> (case load_native linux_x64 (Loaded binding_with_run) of
         (Return exports, effs) \<Rightarrow> False
       | (Throw e, effs) \<Rightarrow> take 20 (message e) = ''reauthfi npm package''
                            \<and> take 20 (message e) \<noteq> ''Unsupported platform'')"
  by (simp add: mac_arm64_def linux_x64_def binding_without_run_def binding_with_run_def
        load_native_def get_prop_def)

section \<open>Properties of the detection core\<close>

lemma first_redirect_None: "(first_redirect outs = None) = (\<forall>u. Redirected u \<notin> set outs)"
  by (induction outs rule: first_redirect.induct) auto

lemma first_redirect_Some: "first_redirect outs = Some u \<Longrightarrow> Redirected u \<in> set outs"
  by (induction outs rule: first_redirect.induct) auto

lemma failed_no_signal:
  "list_all failed outs \<Longrightarrow> first_redirect outs = None \<and> Matched \<notin> set outs"
  by (induction outs rule: first_redirect.induct) auto

lemma gather_no_open: "gather w (opts\<lparr>no_open := b\<rparr>) = gather w opts"
  by (simp add: gather_def Let_def)

lemma gather_calls: "gather w opts = (outs, gw, calls) \<Longrightarrow> BrowserOpen u \<notin> set calls"
  by (auto simp: gather_def Let_def split: if_splits)

lemma detect_ready:
  assumes "0 < timeout opts" and "check w = Ready" and "gather w opts = (outs, gw, calls)"
  shows "detect w opts =
           (Inr (resolve outs gw Ready),
            calls @ (case resolve outs gw Ready of
                       PortalDetected url \<Rightarrow> launch w url opts | _ \<Rightarrow> []))"
  using assms by (simp add: detect_def split: ExecutionStatus.splits)

text \<open>
  Claim C3. \<^verbatim>\<open>resolve\<close> gives one status for every combination of engine outcomes,
  optional gateway outcome and readiness, by this precedence: a readiness result
  \<^verbatim>\<open>NetworkNotReady\<close> gives \<^verbatim>\<open>NetworkNotReady\<close> whatever the outcomes are, and the run
  then makes no call to a probing collaborator; otherwise any portal signal (the
  gateway detector's portal URL, or an engine outcome \<^verbatim>\<open>Redirected\<close>) gives
  \<^verbatim>\<open>PortalDetected\<close> with the URL of one of these signals; otherwise one \<^verbatim>\<open>Matched\<close>
  outcome of the engine gives \<^verbatim>\<open>Completed\<close>; otherwise the status is \<^verbatim>\<open>Inconclusive\<close>,
  never \<^verbatim>\<open>Completed\<close>, in particular when every probe timed out or failed in transport.
\<close>

theorem resolve_precedence:
  "resolve outs gw NotReady = NetworkNotReady
   \<and> (check w = NotReady \<longrightarrow>
        snd (detect w opts) = []
        \<and> (0 < timeout opts \<longrightarrow> fst (detect w opts) = Inr NetworkNotReady))
   \<and> (gateway_signal gw \<noteq> None \<or> (\<exists>u. Redirected u \<in> set outs) \<longrightarrow>
        (\<exists>url. resolve outs gw Ready = PortalDetected url
           \<and> (gateway_signal gw = Some url \<or> Redirected url \<in> set outs)))
   \<and> (gateway_signal gw = None \<and> (\<forall>u. Redirected u \<notin> set outs) \<and> Matched \<in> set outs \<longrightarrow>
        resolve outs gw Ready = Completed)
   \<and> (gateway_signal gw = None \<and> (\<forall>u. Redirected u \<notin> set outs) \<and> Matched \<notin> set outs \<longrightarrow>
        resolve outs gw Ready = Inconclusive)
   \<and> (gateway_signal gw = None \<and> list_all failed outs \<longrightarrow>
        resolve outs gw Ready = Inconclusive)"
proof -
  have a: "resolve outs gw NotReady = NetworkNotReady"
    by (simp add: resolve_def)
  have b: "check w = NotReady \<longrightarrow>
        snd (detect w opts) = []
        \<and> (0 < timeout opts \<longrightarrow> fst (detect w opts) = Inr NetworkNotReady)"
    by (simp add: detect_def resolve_def)
  have c: "gateway_signal gw \<noteq> None \<or> (\<exists>u. Redirected u \<in> set outs) \<longrightarrow>
        (\<exists>url. resolve outs gw Ready = PortalDetected url
           \<and> (gateway_signal gw = Some url \<or> Redirected url \<in> set outs))"
  proof (cases "gateway_signal gw")
    case (Some url)
    then show ?thesis by (simp add: resolve_def)
  next
    case None
    show ?thesis
    proof (cases "first_redirect outs")
      case (Some url)
      with None first_redirect_Some [OF Some] show ?thesis by (simp add: resolve_def)
    next
      case fr: None
      with None show ?thesis by (simp add: first_redirect_None)
    qed
  qed
  have d: "gateway_signal gw = None \<and> (\<forall>u. Redirected u \<notin> set outs) \<and> Matched \<in> set outs \<longrightarrow>
        resolve outs gw Ready = Completed"
    using first_redirect_None [of outs] by (auto simp: resolve_def)
  have e: "gateway_signal gw = None \<and> (\<forall>u. Redirected u \<notin> set outs) \<and> Matched \<notin> set outs \<longrightarrow>
        resolve outs gw Ready = Inconclusive"
    using first_redirect_None [of outs] by (auto simp: resolve_def)
  have f: "gateway_signal gw = None \<and> list_all failed outs \<longrightarrow>
        resolve outs gw Ready = Inconclusive"
    using failed_no_signal [of outs] by (auto simp: resolve_def)
  from a b c d e f show ?thesis by blast
qed

theorem resolve_precedence_witness:
  "check cable_unplugged = NotReady \<and> 0 < timeout default_run
   \<and> detect cable_unplugged default_run = (Inr NetworkNotReady, [])
   \<and> resolve [TimedOut, Redirected ''http://portal.example/login'', Matched] None Ready
       = PortalDetected ''http://portal.example/login''
   \<and> resolve [TimedOut, Matched] None Ready = Completed
   \<and> list_all failed [TimedOut, TransportError ''dns'']
   \<and> resolve [TimedOut, TransportError ''dns''] (Some no_gateway_page) Ready = Inconclusive"
  using resolve_precedence [of "[]" None cable_unplugged default_run]
        resolve_precedence [of "[TimedOut, Redirected ''http://portal.example/login'', Matched]"
          None cable_unplugged default_run]
        resolve_precedence [of "[TimedOut, Matched]" None cable_unplugged default_run]
        resolve_precedence [of "[TimedOut, TransportError ''dns'']" "Some no_gateway_page"
          cable_unplugged default_run]
  by (auto simp: cable_unplugged_def default_run_def options_of_flags_def gateway_signal_def
        no_gateway_page_def prod_eq_iff)

text \<open>
  Claim C6. With \<^verbatim>\<open>Options.no_open\<close> set, the browser-open capability is never
  invoked, and the result of the run is the one it would be without the flag; when that
  result is \<^verbatim>\<open>PortalDetected\<close>, the run without the flag does invoke the capability on
  the detected URL.
\<close>

theorem no_open_never_launches:
  assumes "no_open opts"
  shows "(\<forall>u. BrowserOpen u \<notin> set (snd (detect w opts)))
         \<and> fst (detect w opts) = fst (detect w (opts\<lparr>no_open := False\<rparr>))
         \<and> (fst (detect w opts) = Inr (PortalDetected url) \<longrightarrow>
              BrowserOpen url \<in> set (snd (detect w (opts\<lparr>no_open := False\<rparr>))))"
proof (cases "0 < timeout opts \<and> check w = Ready")
  case False
  then show ?thesis
    by (cases "check w") (auto simp: detect_def resolve_def)
next
  case True
  obtain outs gw calls where g: "gather w opts = (outs, gw, calls)"
    by (cases "gather w opts") auto
  then have g': "gather w (opts\<lparr>no_open := False\<rparr>) = (outs, gw, calls)"
    by (simp add: gather_no_open)
  have d: "detect w opts =
           (Inr (resolve outs gw Ready),
            calls @ (case resolve outs gw Ready of
                       PortalDetected url \<Rightarrow> launch w url opts | _ \<Rightarrow> []))"
    using True g by (simp add: detect_ready)
  have d': "detect w (opts\<lparr>no_open := False\<rparr>) =
           (Inr (resolve outs gw Ready),
            calls @ (case resolve outs gw Ready of
                       PortalDetected url \<Rightarrow> launch w url (opts\<lparr>no_open := False\<rparr>) | _ \<Rightarrow> []))"
    using True g' by (simp add: detect_ready)
  have quiet: "\<forall>u. BrowserOpen u \<notin> set (snd (detect w opts))"
    using assms gather_calls [OF g] by (simp add: d launch_def split: ExecutionStatus.splits)
  have same: "fst (detect w opts) = fst (detect w (opts\<lparr>no_open := False\<rparr>))"
    by (simp add: d d')
  have opens: "fst (detect w opts) = Inr (PortalDetected url) \<longrightarrow>
              BrowserOpen url \<in> set (snd (detect w (opts\<lparr>no_open := False\<rparr>)))"
    by (simp add: d d' launch_def)
  from quiet same opens show ?thesis by blast
qed

theorem no_open_never_launches_witness:
  "no_open print_only
   \<and> detect hotel_wifi print_only
       = (Inr (PortalDetected ''http://portal.example/login''), [EngineProbe])
   \<and> detect hotel_wifi (print_only\<lparr>no_open := False\<rparr>)
       = (Inr (PortalDetected ''http://portal.example/login''),
          [EngineProbe, BrowserOpen ''http://portal.example/login''])"
  using no_open_never_launches [of print_only hotel_wifi "''http://portal.example/login''"]
  by (simp add: print_only_def hotel_wifi_def options_of_flags_def detect_def gather_def
        ambiguous_def resolve_def gateway_signal_def launch_def)

text \<open>
  Claim C7. Options whose timeout is not a positive integer are rejected with a
  \<^verbatim>\<open>ConfigurationError\<close> before any collaborator is called, and no status is produced;
  a positive timeout always leads to a status; and when the timeout flag is omitted the
  timeout is 10 seconds.
\<close>

theorem nonpositive_timeout_rejected:
  "(timeout opts \<le> 0 \<longrightarrow> detect w opts = (Inl ConfigurationError, []))
   \<and> (0 < timeout opts \<longrightarrow> (\<exists>status. fst (detect w opts) = Inr status))
   \<and> timeout (options_of_flags v n g None) = 10
   \<and> timeout (options_of_flags v n g (Some t)) = t"
  by (auto simp: detect_def options_of_flags_def
        split: Readiness.splits prod.splits ExecutionStatus.splits)

theorem nonpositive_timeout_rejected_witness:
  "timeout (options_of_flags True False True (Some 0)) \<le> 0
   \<and> detect hotel_wifi (options_of_flags True False True (Some 0)) = (Inl ConfigurationError, [])
   \<and> detect hotel_wifi (options_of_flags True False True (Some (- 5))) = (Inl ConfigurationError, [])
   \<and> 0 < timeout default_run \<and> timeout default_run = 10
   \<and> fst (detect hotel_wifi default_run) = Inr (PortalDetected ''http://portal.example/login'')"
  using nonpositive_timeout_rejected
          [of "options_of_flags True False True (Some 0)" hotel_wifi False False False 0]
        nonpositive_timeout_rejected
          [of "options_of_flags True False True (Some (- 5))" hotel_wifi False False False "- 5"]
        nonpositive_timeout_rejected [of default_run hotel_wifi False False False 0]
  by (simp add: default_run_def hotel_wifi_def options_of_flags_def detect_def gather_def
        ambiguous_def resolve_def gateway_signal_def launch_def)

end
